theory Spec2Isabelle
  imports Complex_Main "HOL-Library.AList" "HOL-Library.Sublist"
begin

section \<open>Values of the program\<close>

text \<open>
  The viewer of \<^verbatim>\<open>src/src/dicom-loader.js\<close> (class \<^verbatim>\<open>VolumeViewer3D\<close>) and the
  application class of \<^verbatim>\<open>src/unnamed/part_000\<close> (class \<^verbatim>\<open>MedicalImagingApp\<close>) are
  embedded as functions on explicit state. JavaScript numbers are modelled as real
  numbers: arithmetic is exact, and rounding, NaN and the infinities are outside the
  model. A three-element array of numbers is a triple.
\<close>

type_synonym vec3 = "real \<times> real \<times> real"

text \<open>
  The console is part of the state: every \<^verbatim>\<open>console.log\<close>, \<^verbatim>\<open>console.warn\<close> and
  \<^verbatim>\<open>console.error\<close> of the modelled methods appends an entry, which keeps the level
  and the literal text that starts the call's first argument (the values logged with it
  are dropped). What the engine itself prints is not recorded.
\<close>

datatype level = ConsoleLog | ConsoleWarn | ConsoleError

type_synonym log_entry = "level \<times> string"

subsection \<open>Property lookup on an object literal\<close>

text \<open>
  \<^verbatim>\<open>table[key]\<close> on an object literal finds the literal's own keys and, through the
  prototype chain, the properties of \<^verbatim>\<open>Object.prototype\<close>; every one of those is a
  function or an object, hence truthy. The three outcomes are kept apart.
\<close>

datatype 'a js_prop = Own 'a | Inherited | Absent

definition object_prototype_keys :: "string list" where
  "object_prototype_keys =
     [''constructor'', ''hasOwnProperty'', ''isPrototypeOf'', ''propertyIsEnumerable'',
      ''toLocaleString'', ''toString'', ''valueOf'', ''__proto__'',
      ''__defineGetter__'', ''__defineSetter__'', ''__lookupGetter__'', ''__lookupSetter__'']"

definition property :: "(string \<times> 'a) list \<Rightarrow> string \<Rightarrow> 'a js_prop" where
  "property obj k =
     (case map_of obj k of
        Some v \<Rightarrow> Own v
      | None \<Rightarrow> if k \<in> set object_prototype_keys then Inherited else Absent)"

section \<open>State of the viewer\<close>

record camera =
  position :: vec3
  focalPoint :: vec3
  viewUp :: vec3
  parallelProjection :: bool
  viewAngle :: real
  clippingRange :: "real \<times> real"

text \<open>\<^verbatim>\<open>imageData.getBounds()\<close>: the array \<^verbatim>\<open>[xmin, xmax, ymin, ymax, zmin, zmax]\<close>,
  read by index 0 to 5.\<close>

record bounds =
  b0 :: real
  b1 :: real
  b2 :: real
  b3 :: real
  b4 :: real
  b5 :: real

record volume =
  imageData_bounds :: bounds

text \<open>
  The rendering engine (Cornerstone3D and vtk.js) is not part of the repository. It is
  modelled as a store: a viewport holds a camera, its actors and its properties, and
  every getter returns what the last setter stored. An actor's property holds the two
  transfer functions the viewer edits: the scalar-opacity function (a list of nodes
  \<open>(x, opacity)\<close>) and the colour function (a list of nodes \<open>(x, r, g, b)\<close>).
  Rendering (\<^verbatim>\<open>viewport.render()\<close>) and the DOM are not modelled, and the engine's
  calls do not throw unless a function says so.
\<close>

record volume_actor =
  scalarOpacity :: "(real \<times> real) list"
  rgbTransferFunction :: "(real \<times> real \<times> real \<times> real) list"

record actor_entry =
  actor :: "volume_actor option"

datatype js_color = Color real real real | InheritedValue

record tf_point =
  point_value :: "real option"
  point_opacity :: real
  point_color :: js_color

record viewport =
  vp_camera :: camera
  vp_actors :: "actor_entry list"
  voiRange :: "(real \<times> real) option"
  globalOpacityMultiplier :: "real option"
  vp_preset :: "string option"
  transferFunctionPoints :: "tf_point list option"

datatype mouse_button = Primary | Wheel

type_synonym tool_group = "(string \<times> mouse_button list) list"

type_synonym metadata = "(string \<times> string) list"

record volume_data =
  vd_volume :: volume
  imageIds :: "string list"
  vd_metadata :: metadata

text \<open>
  The fields of \<^verbatim>\<open>VolumeViewer3D\<close> that the modelled methods read or write, the
  entry of the engine's volume cache under the viewer's fixed \<^verbatim>\<open>volumeId\<close>
  (\<^verbatim>\<open>cornerstone.cache.getVolume(this.volumeId)\<close>), and the console.
\<close>

record viewer =
  viewport :: "viewport option"
  toolGroup :: "tool_group option"
  isInitialized :: bool
  currentVolumeData :: "volume_data option"
  cache_volume :: "volume option"
  console :: "log_entry list"

definition console_log :: "string \<Rightarrow> viewer \<Rightarrow> viewer" where
  "console_log m st = st\<lparr>console := console st @ [(ConsoleLog, m)]\<rparr>"

definition console_warn :: "string \<Rightarrow> viewer \<Rightarrow> viewer" where
  "console_warn m st = st\<lparr>console := console st @ [(ConsoleWarn, m)]\<rparr>"

definition console_error :: "string \<Rightarrow> viewer \<Rightarrow> viewer" where
  "console_error m st = st\<lparr>console := console st @ [(ConsoleError, m)]\<rparr>"

section \<open>Window and level\<close>

text \<open>
  The scalar-opacity function is vtk.js's piecewise function, which is not in the
  repository: \<^verbatim>\<open>removeAllPoints\<close> empties it, and \<^verbatim>\<open>addPoint(x, y)\<close> replaces a node
  already at \<open>x\<close> and keeps the nodes ordered by \<open>x\<close>.
\<close>

definition removeAllPoints :: "(real \<times> 'a) list \<Rightarrow> (real \<times> 'a) list" where
  "removeAllPoints f = []"

definition addPoint :: "real \<Rightarrow> 'a \<Rightarrow> (real \<times> 'a) list \<Rightarrow> (real \<times> 'a) list" where
  "addPoint x y f = insort_key fst (x, y) (filter (\<lambda>p. fst p \<noteq> x) f)"

text \<open>\<^verbatim>\<open>VolumeViewer3D.setWindowLevel(width, center)\<close>, lines 1440 to 1485.\<close>

definition setWindowLevel :: "real \<Rightarrow> real \<Rightarrow> viewer \<Rightarrow> viewer" where
  "setWindowLevel w c st =
     (case viewport st of
        None \<Rightarrow> console_warn ''No volume available for window level adjustment'' st
      | Some vp \<Rightarrow>
          (case currentVolumeData st of
             None \<Rightarrow> console_warn ''No volume available for window level adjustment'' st
           | Some _ \<Rightarrow>
               (case vp_actors vp of
                  [] \<Rightarrow> st
                | volumeActor # others \<Rightarrow>
                    (case actor volumeActor of
                       None \<Rightarrow> console_log ''Volume actor found:'' st
                     | Some a \<Rightarrow>
                         let cleared = removeAllPoints (scalarOpacity a);
                             windowMin = c - w / 2;
                             windowMax = c + w / 2;
                             ramp = addPoint windowMax 1 (addPoint windowMin 0 cleared);
                             volumeActor' = volumeActor\<lparr>actor := Some (a\<lparr>scalarOpacity := ramp\<rparr>)\<rparr>;
                             vp' = vp\<lparr>vp_actors := volumeActor' # others\<rparr>
                         in console_log ''Window level: Width=''
                              (console_log ''Setting window level on volume actor:''
                                (console_log ''Volume actor found:''
                                  (st\<lparr>viewport := Some vp'\<rparr>)))))))"

record window_level =
  width :: real
  center :: real

text \<open>\<^verbatim>\<open>VolumeViewer3D.getWindowLevel()\<close>, lines 1536 to 1554. The getter reads the
  viewport's \<^verbatim>\<open>voiRange\<close> property and nothing else.\<close>

definition getWindowLevel :: "viewer \<Rightarrow> window_level" where
  "getWindowLevel st =
     (case viewport st of
        None \<Rightarrow> \<lparr>width = 400, center = 50\<rparr>
      | Some vp \<Rightarrow>
          (case currentVolumeData st of
             None \<Rightarrow> \<lparr>width = 400, center = 50\<rparr>
           | Some _ \<Rightarrow>
               (case voiRange vp of
                  Some (lower, upper) \<Rightarrow>
                    let wd = upper - lower; ce = lower + wd / 2
                    in \<lparr>width = wd, center = ce\<rparr>
                | None \<Rightarrow> \<lparr>width = 400, center = 50\<rparr>)))"

section \<open>Colour function, global opacity and presets\<close>

text \<open>A colour stop of a preset: \<^verbatim>\<open>{ value, color: [r, g, b, a] }\<close>.\<close>

record color_point =
  cp_value :: real
  cp_color :: "real \<times> real \<times> real \<times> real"

text \<open>\<^verbatim>\<open>VolumeViewer3D.setRGBTransferFunction(colorPoints)\<close>, lines 1491 to 1529.
  \<^verbatim>\<open>addRGBPoint\<close> of the engine's colour function behaves as \<^verbatim>\<open>addPoint\<close> does, and
  an actor's property always has its colour function.\<close>

definition addRGBPoint ::
  "color_point \<Rightarrow> (real \<times> real \<times> real \<times> real) list \<Rightarrow> (real \<times> real \<times> real \<times> real) list" where
  "addRGBPoint p f = (case cp_color p of (r, g, b, _) \<Rightarrow> addPoint (cp_value p) (r, g, b) f)"

definition setRGBTransferFunction :: "color_point list \<Rightarrow> viewer \<Rightarrow> viewer" where
  "setRGBTransferFunction colorPoints st =
     (case viewport st of
        None \<Rightarrow> console_warn ''No volume available for color adjustment'' st
      | Some vp \<Rightarrow>
          (case currentVolumeData st of
             None \<Rightarrow> console_warn ''No volume available for color adjustment'' st
           | Some _ \<Rightarrow>
               (case vp_actors vp of
                  [] \<Rightarrow> st
                | volumeActor # others \<Rightarrow>
                    (case actor volumeActor of
                       None \<Rightarrow> st
                     | Some a \<Rightarrow>
                         let cleared = removeAllPoints (rgbTransferFunction a);
                             stops = fold addRGBPoint colorPoints cleared;
                             volumeActor' =
                               volumeActor\<lparr>actor := Some (a\<lparr>rgbTransferFunction := stops\<rparr>)\<rparr>;
                             vp' = vp\<lparr>vp_actors := volumeActor' # others\<rparr>
                         in console_log ''RGB transfer function applied:''
                              (st\<lparr>viewport := Some vp'\<rparr>)))))"

text \<open>\<^verbatim>\<open>VolumeViewer3D.setVolumeOpacity(opacity)\<close>, lines 1078 to 1102.\<close>

definition setVolumeOpacity :: "real \<Rightarrow> viewer \<Rightarrow> viewer" where
  "setVolumeOpacity opacity st =
     (case viewport st of
        None \<Rightarrow> console_warn ''No volume available for opacity change'' st
      | Some vp \<Rightarrow>
          (case currentVolumeData st of
             None \<Rightarrow> console_warn ''No volume available for opacity change'' st
           | Some _ \<Rightarrow>
               console_log ''Volume opacity set to:''
                 (st\<lparr>viewport := Some (vp\<lparr>globalOpacityMultiplier := Some opacity\<rparr>)\<rparr>)))"

text \<open>
  A preset as \<^verbatim>\<open>apply3DPreset\<close> reads it: each of \<^verbatim>\<open>windowLevel\<close>, \<^verbatim>\<open>colorPoints\<close>
  and \<^verbatim>\<open>opacity\<close> may be missing.
\<close>

record preset =
  preset_name :: string
  colorPoints :: "color_point list option"
  windowLevel :: "window_level option"
  preset_opacity :: "real option"

text \<open>\<^verbatim>\<open>VolumeViewer3D.apply3DPreset(preset)\<close>, lines 1007 to 1037.\<close>

definition apply3DPreset :: "preset \<Rightarrow> viewer \<Rightarrow> viewer" where
  "apply3DPreset p st =
     (if viewport st = None \<or> currentVolumeData st = None
      then console_warn ''No volume available for preset application'' st
      else
        let st1 = (case windowLevel p of
                     Some wl \<Rightarrow> setWindowLevel (width wl) (center wl) st
                   | None \<Rightarrow> st);
            st2 = (case colorPoints p of
                     Some cps \<Rightarrow> if length cps > 0 then setRGBTransferFunction cps st1 else st1
                   | None \<Rightarrow> st1);
            st3 = (case preset_opacity p of
                     Some opacity \<Rightarrow> setVolumeOpacity opacity st2
                   | None \<Rightarrow> st2)
        in console_log ''Applied 3D preset: '' st3)"

section \<open>Tissue opacities\<close>

text \<open>The two tables of \<^verbatim>\<open>setTissueOpacities\<close> and \<^verbatim>\<open>getTissueColor\<close>; a range is
  \<open>(min, max)\<close>.\<close>

definition tissueRanges :: "(string \<times> real \<times> real) list" where
  "tissueRanges =
     [(''bone'', (200, 2000)), (''softtissue'', (-100, 200)),
      (''lung'', (-1000, -100)), (''vessel'', (100, 400))]"

definition tissueColors :: "(string \<times> vec3) list" where
  "tissueColors =
     [(''bone'', (1, 9/10, 8/10)), (''softtissue'', (9/10, 7/10, 6/10)),
      (''lung'', (4/10, 6/10, 8/10)), (''vessel'', (8/10, 2/10, 2/10))]"

text \<open>\<^verbatim>\<open>VolumeViewer3D.getTissueColor(tissue)\<close>, lines 1190 to 1199:
  \<^verbatim>\<open>tissueColors[tissue] || [1.0, 1.0, 1.0]\<close>. An inherited property is truthy and is
  returned as it is.\<close>

definition getTissueColor :: "string \<Rightarrow> js_color" where
  "getTissueColor tissue =
     (case property tissueColors tissue of
        Own (r, g, b) \<Rightarrow> Color r g b
      | Inherited \<Rightarrow> InheritedValue
      | Absent \<Rightarrow> Color 1 1 1)"

text \<open>
  The body of the \<^verbatim>\<open>forEach\<close> over \<^verbatim>\<open>Object.entries(tissueOpacities)\<close>: the points
  one entry pushes. For an inherited property \<^verbatim>\<open>range\<close> is truthy and \<^verbatim>\<open>range.min\<close>,
  \<^verbatim>\<open>range.max\<close> are \<^verbatim>\<open>undefined\<close>.
\<close>

definition push_tissue :: "string \<times> real \<Rightarrow> tf_point list \<Rightarrow> tf_point list" where
  "push_tissue entry points =
     (case entry of (tissue, opacity) \<Rightarrow>
        (case property tissueRanges tissue of
           Own (range_min, range_max) \<Rightarrow>
             points @
             [\<lparr>point_value = Some range_min, point_opacity = opacity,
               point_color = getTissueColor tissue\<rparr>,
              \<lparr>point_value = Some range_max, point_opacity = opacity,
               point_color = getTissueColor tissue\<rparr>]
         | Inherited \<Rightarrow>
             points @
             [\<lparr>point_value = None, point_opacity = opacity, point_color = getTissueColor tissue\<rparr>,
              \<lparr>point_value = None, point_opacity = opacity, point_color = getTissueColor tissue\<rparr>]
         | Absent \<Rightarrow> points))"

text \<open>\<^verbatim>\<open>VolumeViewer3D.setTissueOpacities(tissueOpacities)\<close>, lines 1135 to 1183. The
  argument is the object's entries in enumeration order.\<close>

definition setTissueOpacities :: "(string \<times> real) list \<Rightarrow> viewer \<Rightarrow> viewer" where
  "setTissueOpacities tissueOpacities st =
     (case viewport st of
        None \<Rightarrow> console_warn ''No volume available for tissue opacity adjustment'' st
      | Some vp \<Rightarrow>
          (case currentVolumeData st of
             None \<Rightarrow> console_warn ''No volume available for tissue opacity adjustment'' st
           | Some _ \<Rightarrow>
               let points = fold push_tissue tissueOpacities [];
                   st1 = (if length points > 0
                          then st\<lparr>viewport := Some (vp\<lparr>transferFunctionPoints := Some points\<rparr>)\<rparr>
                          else st)
               in console_log ''Applied tissue-specific opacities:'' st1))"

section \<open>Camera\<close>

text \<open>\<^verbatim>\<open>VolumeViewer3D.setupInitialCamera()\<close>, lines 602 to 636. The volume is read from
  the engine's cache, not from \<^verbatim>\<open>currentVolumeData\<close>.\<close>

definition setupInitialCamera :: "viewer \<Rightarrow> viewer" where
  "setupInitialCamera st =
     (case viewport st of
        None \<Rightarrow> st
      | Some vp \<Rightarrow>
          let cam = (vp_camera vp)\<lparr>parallelProjection := True, viewAngle := 45\<rparr>;
              cam' =
                (case cache_volume st of
                   None \<Rightarrow> cam
                 | Some vol \<Rightarrow>
                     let b = imageData_bounds vol;
                         cx = (b0 b + b1 b) / 2;
                         cy = (b2 b + b3 b) / 2;
                         cz = (b4 b + b5 b) / 2;
                         diagonal = sqrt ((b1 b - b0 b)\<^sup>2 + (b3 b - b2 b)\<^sup>2 + (b5 b - b4 b)\<^sup>2)
                     in cam\<lparr>focalPoint := (cx, cy, cz),
                            position := (cx + diagonal * (8/10), cy - diagonal * (8/10),
                                         cz + diagonal * (8/10)),
                            viewUp := (0, 0, 1),
                            clippingRange := (diagonal * (1/100), diagonal * 100)\<rparr>)
          in st\<lparr>viewport := Some (vp\<lparr>vp_camera := cam'\<rparr>)\<rparr>)"

text \<open>\<^verbatim>\<open>String.prototype.toLowerCase\<close> on ASCII text.\<close>

definition lower_char :: "char \<Rightarrow> char" where
  "lower_char ch =
     (let n = (of_char ch :: nat) in if 65 \<le> n \<and> n \<le> 90 then char_of (n + 32) else ch)"

definition toLowerCase :: "string \<Rightarrow> string" where
  "toLowerCase s = map lower_char s"

text \<open>
  \<^verbatim>\<open>VolumeViewer3D.rotateAroundAxis(axis, degrees)\<close>, lines 716 to 805. The switch has
  a fourth case \<^verbatim>\<open>'o'\<close>, whose first statement reads the undeclared variable \<^verbatim>\<open>e\<close>:
  it throws, and the method's \<^verbatim>\<open>catch\<close> logs the error and leaves the camera as it
  was.
\<close>

definition rotateAroundAxis :: "string \<Rightarrow> real \<Rightarrow> viewer \<Rightarrow> viewer" where
  "rotateAroundAxis axis degrees st =
     (case viewport st of
        None \<Rightarrow> st
      | Some vp \<Rightarrow>
          let cam = vp_camera vp;
              radians = (degrees * pi) / 180
          in (case (position cam, focalPoint cam, viewUp cam) of
                ((p0, p1, p2), (f0, f1, f2), (u0, u1, u2)) \<Rightarrow>
                  let d0 = p0 - f0; d1 = p1 - f1; d2 = p2 - f2;
                      updated = (\<lambda>newPosition newViewUp.
                        console_log ''Rotated ''
                          (st\<lparr>viewport := Some (vp\<lparr>vp_camera :=
                             cam\<lparr>position := newPosition, viewUp := newViewUp\<rparr>\<rparr>)\<rparr>))
                  in if toLowerCase axis = ''x'' then
                       updated
                         (p0,
                          f1 + d1 * cos radians - d2 * sin radians,
                          f2 + d1 * sin radians + d2 * cos radians)
                         (u0,
                          u1 * cos radians - u2 * sin radians,
                          u1 * sin radians + u2 * cos radians)
                     else if toLowerCase axis = ''y'' then
                       updated
                         (f0 + d0 * cos radians + d2 * sin radians,
                          p1,
                          f2 - d0 * sin radians + d2 * cos radians)
                         (u0 * cos radians + u2 * sin radians,
                          u1,
                          - u0 * sin radians + u2 * cos radians)
                     else if toLowerCase axis = ''z'' then
                       updated
                         (f0 + d0 * cos radians - d1 * sin radians,
                          f1 + d0 * sin radians + d1 * cos radians,
                          p2)
                         (u0 * cos radians - u1 * sin radians,
                          u0 * sin radians + u1 * cos radians,
                          u2)
                     else if toLowerCase axis = ''o'' then
                       console_error ''Error applying manual rotation:'' st
                     else console_warn ''Invalid rotation axis:'' st))"

section \<open>Tool group\<close>

text \<open>
  Modelled from the spec: the tool group (\<^verbatim>\<open>ToolGroupManager\<close>, \<^verbatim>\<open>addTool\<close>,
  \<^verbatim>\<open>setToolActive\<close>, \<^verbatim>\<open>setToolPassive\<close>) and the tools' names belong to
  \<^verbatim>\<open>@cornerstonejs/tools\<close>, which is not in the repository. A tool group lists, for
  each tool added to it, the gestures bound to the tool; a tool is active for a gesture
  when the gesture is among its bindings. Activating a tool adds the given bindings to
  those it has; making a tool passive removes its binding for the primary button and
  keeps the others; a name that is no tool of the group changes nothing.
\<close>

definition TrackballRotateTool_toolName :: string where
  "TrackballRotateTool_toolName = ''TrackballRotate''"

definition PanTool_toolName :: string where
  "PanTool_toolName = ''Pan''"

definition ZoomTool_toolName :: string where
  "ZoomTool_toolName = ''Zoom''"

definition addTool :: "string \<Rightarrow> tool_group \<Rightarrow> tool_group" where
  "addTool toolName tg = (if map_of tg toolName = None then tg @ [(toolName, [])] else tg)"

definition setToolActive :: "string \<Rightarrow> mouse_button list \<Rightarrow> tool_group \<Rightarrow> tool_group" where
  "setToolActive toolName bindings tg =
     (case map_of tg toolName of
        None \<Rightarrow> tg
      | Some prev \<Rightarrow> AList.update toolName (remdups (prev @ bindings)) tg)"

definition setToolPassive :: "string \<Rightarrow> tool_group \<Rightarrow> tool_group" where
  "setToolPassive toolName tg =
     (case map_of tg toolName of
        None \<Rightarrow> tg
      | Some prev \<Rightarrow> AList.update toolName (filter (\<lambda>b. b \<noteq> Primary) prev) tg)"

text \<open>\<^verbatim>\<open>VolumeViewer3D.setupToolGroup()\<close>, lines 446 to 485: the old group is destroyed
  and the new one starts empty.\<close>

definition setupToolGroup :: "viewer \<Rightarrow> viewer" where
  "setupToolGroup st =
     (let tg0 = [];
          tg1 = addTool ZoomTool_toolName
                  (addTool PanTool_toolName (addTool TrackballRotateTool_toolName tg0));
          tg2 = setToolActive ZoomTool_toolName [Wheel] tg1;
          tg3 = setToolActive TrackballRotateTool_toolName [Primary] tg2;
          tg4 = setToolPassive PanTool_toolName tg3
      in console_log ''Tool group configured successfully with initial states''
           (console_log ''Tools added to group''
             (console_log ''Tool group created:'' (st\<lparr>toolGroup := Some tg4\<rparr>))))"

text \<open>
  \<^verbatim>\<open>VolumeViewer3D.setActiveTool(toolName)\<close>, lines 495 to 538. The guard
  \<^verbatim>\<open>!actualToolName\<close> rejects only a name for which the lookup finds nothing. For a
  property inherited from \<^verbatim>\<open>Object.prototype\<close> the lookup yields a function or an
  object: the method goes on, and its last call hands the engine a value that names no
  tool.
\<close>

definition toolMap :: "(string \<times> string) list" where
  "toolMap =
     [(''TrackballRotate'', TrackballRotateTool_toolName),
      (''Pan'', PanTool_toolName),
      (''Zoom'', ZoomTool_toolName)]"

definition setActiveTool :: "string \<Rightarrow> viewer \<Rightarrow> viewer" where
  "setActiveTool toolName st =
     (case toolGroup st of
        None \<Rightarrow> console_warn ''Tool group not initialized'' st
      | Some tg \<Rightarrow>
          let actualToolName = property toolMap toolName in
          if actualToolName = Absent then console_warn ''Invalid tool name:'' st
          else
            let tg1 = setToolPassive TrackballRotateTool_toolName tg;
                tg2 = setToolPassive PanTool_toolName tg1;
                tg3 = setToolPassive ZoomTool_toolName tg2;
                tg4 = setToolActive ZoomTool_toolName [Wheel] tg3;
                tg5 = (case actualToolName of
                         Own name \<Rightarrow> setToolActive name [Primary] tg4
                       | _ \<Rightarrow> tg4)
            in console_log ''Active tool set to: '' (st\<lparr>toolGroup := Some tg5\<rparr>))"

section \<open>Binding a volume\<close>

text \<open>
  An error raised by \<^verbatim>\<open>throw\<close>, with its message. A method that can throw returns the
  state it leaves behind and the error, if it raised one.
\<close>

datatype error = Error string

text \<open>
  What the engine does during one \<^verbatim>\<open>displayVolume\<close>: creating the volume, loading
  it or attaching it to the viewport throws, or all three complete and the viewport
  gets the volume's actors.
\<close>

datatype engine_run =
    CreateThrows string
  | LoadThrows volume string
  | SetVolumesThrows volume string
  | Completes volume "actor_entry list"

definition display_failed :: "string \<Rightarrow> viewer \<Rightarrow> viewer \<times> error option" where
  "display_failed m st = (console_error ''Error displaying volume:'' st, Some (Error m))"

text \<open>\<^verbatim>\<open>VolumeViewer3D.displayVolume(imageIds, metadata)\<close>, lines 545 to 594. The
  method does not look at the number of image ids.\<close>

definition displayVolume ::
  "string list \<Rightarrow> metadata \<Rightarrow> engine_run \<Rightarrow> viewer \<Rightarrow> viewer \<times> error option" where
  "displayVolume ids md run st =
     (if \<not> isInitialized st then (st, Some (Error ''Volume viewer not initialized''))
      else
        let st1 = (console_log ''Creating volume from images:'' st)\<lparr>cache_volume := None\<rparr>;
            created = (\<lambda>vol. console_log ''Volume created successfully:''
                                (st1\<lparr>cache_volume := Some vol\<rparr>));
            loaded = (\<lambda>vol. (console_log ''Volume loaded'' (created vol))
                        \<lparr>currentVolumeData :=
                           Some \<lparr>vd_volume = vol, imageIds = ids, vd_metadata = md\<rparr>\<rparr>)
        in (case run of
              CreateThrows m \<Rightarrow> display_failed m st1
            | LoadThrows vol m \<Rightarrow> display_failed m (created vol)
            | SetVolumesThrows vol m \<Rightarrow> display_failed m (loaded vol)
            | Completes vol actors \<Rightarrow>
                (case viewport (loaded vol) of
                   None \<Rightarrow>
                     display_failed ''Cannot read properties of null''
                       (console_log ''Volume set on viewport'' (loaded vol))
                 | Some vp \<Rightarrow>
                     let vp1 = vp\<lparr>vp_actors := actors, vp_preset := Some ''CT-Bone''\<rparr>;
                         st2 = (console_log ''Volume set on viewport'' (loaded vol))
                                 \<lparr>viewport := Some vp1\<rparr>
                     in (console_log ''Volume displayed successfully'' (setupInitialCamera st2),
                         None))))"

text \<open>\<^verbatim>\<open>VolumeViewer3D.getCurrentVolumeInfo()\<close>, lines 1416 to 1433: the image count of
  the bound volume.\<close>

definition imageCount :: "viewer \<Rightarrow> nat option" where
  "imageCount st =
     (if viewport st = None then None
      else map_option (\<lambda>d. length (imageIds d)) (currentVolumeData st))"

section \<open>Loading files\<close>

record dicom_file =
  file_name :: string
  file_type :: string

text \<open>\<^verbatim>\<open>DicomLoader.isDicomFile(file)\<close>, lines 139 to 152.\<close>

definition isDicomFile :: "dicom_file \<Rightarrow> bool" where
  "isDicomFile f =
     (let validExtensions = [''.dcm'', ''.dicom'', ''.DCM'', ''.DICOM''];
          hasValidExtension =
            list_ex (\<lambda>ext. suffix (toLowerCase ext) (toLowerCase (file_name f))) validExtensions;
          hasValidMimeType =
            (file_type f = ''application/dicom'' \<or> file_type f = ''application/octet-stream''
             \<or> file_type f = '''')
      in hasValidExtension \<and> hasValidMimeType)"

text \<open>What one file's load resolves to: \<^verbatim>\<open>{ image, imageId, metadata, fileName }\<close>
  (the pixel data is left out).\<close>

record loaded_image =
  li_imageId :: string
  li_metadata :: metadata
  li_fileName :: string

datatype 'a settled = Fulfilled 'a | Rejected string

text \<open>
  \<^verbatim>\<open>DicomLoader.loadDicomFile(file)\<close>, lines 37 to 94. Reading the file and decoding the
  image belong to the browser and the engine: \<open>decode\<close> is what they settle to.
\<close>

definition loadDicomFile :: "(dicom_file \<Rightarrow> loaded_image settled) \<Rightarrow> dicom_file \<Rightarrow> loaded_image settled" where
  "loadDicomFile decode f = (if \<not> isDicomFile f then Rejected ''Invalid DICOM file'' else decode f)"

record load_results =
  successful :: "loaded_image list"
  failed :: "(string \<times> string) list"
  total :: nat

fun collect :: "(dicom_file \<times> loaded_image settled) list \<Rightarrow> loaded_image list \<times> (string \<times> string) list" where
  "collect [] = ([], [])"
| "collect ((f, Fulfilled v) # rs) = (case collect rs of (ok, bad) \<Rightarrow> (v # ok, bad))"
| "collect ((f, Rejected m) # rs) = (case collect rs of (ok, bad) \<Rightarrow> (ok, (file_name f, m) # bad))"

text \<open>\<^verbatim>\<open>DicomLoader.loadMultipleDicomFiles(files)\<close>, lines 101 to 132.\<close>

definition loadMultipleDicomFiles ::
  "(dicom_file \<Rightarrow> loaded_image settled) \<Rightarrow> dicom_file list \<Rightarrow> load_results" where
  "loadMultipleDicomFiles decode files =
     (case collect (map (\<lambda>f. (f, loadDicomFile decode f)) files) of
        (ok, bad) \<Rightarrow> \<lparr>successful = ok, failed = bad, total = length files\<rparr>)"

section \<open>The application\<close>

record app =
  volumeViewer :: "viewer option"
  currentImages :: "loaded_image list"
  app_isInitialized :: bool

text \<open>\<^verbatim>\<open>MedicalImagingApp.loadVolumeFromFiles(files)\<close>, lines 394 to 411 of
  \<^verbatim>\<open>part_000\<close>.\<close>

definition loadVolumeFromFiles ::
  "(dicom_file \<Rightarrow> loaded_image settled) \<Rightarrow> engine_run \<Rightarrow> dicom_file list \<Rightarrow> app \<Rightarrow> app \<times> error option" where
  "loadVolumeFromFiles decode run files a =
     (let results = loadMultipleDicomFiles decode files in
      if length (successful results) < 2 then (a, Some (Error ''Need at least 2 DICOM files''))
      else
        (case successful results of
           [] \<Rightarrow> (a, Some (Error ''Cannot read properties of undefined''))
         | first # _ \<Rightarrow>
             (case volumeViewer a of
                None \<Rightarrow> (a, Some (Error ''Cannot read properties of null''))
              | Some v \<Rightarrow>
                  (case displayVolume (map li_imageId (successful results)) (li_metadata first) run v of
                     (v', Some e) \<Rightarrow> (a\<lparr>volumeViewer := Some v'\<rparr>, Some e)
                   | (v', None) \<Rightarrow>
                       (a\<lparr>volumeViewer := Some (setActiveTool ''TrackballRotate'' v'),
                          currentImages := successful results\<rparr>, None)))))"

text \<open>
  \<^verbatim>\<open>MedicalImagingApp.handleFileUpload(event)\<close>, lines 379 to 392 of \<^verbatim>\<open>part_000\<close>, on
  the event's file list. With fewer than two files it shows a message and returns; an
  error raised by \<^verbatim>\<open>loadVolumeFromFiles\<close> is caught and shown as a message. The
  messages are DOM, so only the application's state is returned.
\<close>

definition handleFileUpload ::
  "(dicom_file \<Rightarrow> loaded_image settled) \<Rightarrow> engine_run \<Rightarrow> dicom_file list \<Rightarrow> app \<Rightarrow> app" where
  "handleFileUpload decode run files a =
     (if length files < 2 then a else fst (loadVolumeFromFiles decode run files a))"

text \<open>
  \<^verbatim>\<open>MedicalImagingApp.setActiveTool(toolName, buttonElement)\<close>, lines 413 to 425 of
  \<^verbatim>\<open>part_000\<close>. The button states are DOM. When the lookup finds an inherited
  property, the viewer is called with that function or object, which its own lookup
  turns into a property key: the text below, as V8 prints it.
\<close>

definition inherited_as_key :: "string \<Rightarrow> string" where
  "inherited_as_key k =
     (if k = ''__proto__'' then ''[object Object]''
      else ''function '' @ (if k = ''constructor'' then ''Object'' else k) @ ''() { [native code] }'')"

definition app_setActiveTool :: "string \<Rightarrow> app \<Rightarrow> app" where
  "app_setActiveTool toolName a =
     (case property [(''Rotate'', ''TrackballRotate''), (''Pan'', ''Pan''), (''Zoom'', ''Zoom'')]
             toolName of
        Absent \<Rightarrow> a
      | Own viewerTool \<Rightarrow>
          (case volumeViewer a of
             None \<Rightarrow> a
           | Some v \<Rightarrow> a\<lparr>volumeViewer := Some (setActiveTool viewerTool v)\<rparr>)
      | Inherited \<Rightarrow>
          (case volumeViewer a of
             None \<Rightarrow> a
           | Some v \<Rightarrow> a\<lparr>volumeViewer := Some (setActiveTool (inherited_as_key toolName) v)\<rparr>))"

section \<open>Definitions taken from the specification\<close>

text \<open>
  The specification's words, for comparison with the code: the planar rotation of
  section 4.1 (\<open>x' = x cos r - y sin r\<close>, \<open>y' = x sin r + y cos r\<close>), the centre and the
  diagonal of axis-aligned bounds ("midpoint per axis", "Euclidean length of the bounds'
  extent vector"), and the table of tissue ranges of section 4.2 with each tissue's
  colour.
\<close>

definition planar_rotation :: "real \<Rightarrow> real \<times> real \<Rightarrow> real \<times> real" where
  "planar_rotation r v = (case v of (a, b) \<Rightarrow> (a * cos r - b * sin r, a * sin r + b * cos r))"

definition bounds_center :: "bounds \<Rightarrow> vec3" where
  "bounds_center b = ((b0 b + b1 b) / 2, (b2 b + b3 b) / 2, (b4 b + b5 b) / 2)"

definition euclidean_length :: "vec3 \<Rightarrow> real" where
  "euclidean_length v = (case v of (x, y, z) \<Rightarrow> sqrt (x * x + y * y + z * z))"

definition bounds_diagonal :: "bounds \<Rightarrow> real" where
  "bounds_diagonal b = euclidean_length (b1 b - b0 b, b3 b - b2 b, b5 b - b4 b)"

definition tissue_table :: "(string \<times> real \<times> real \<times> vec3) list" where
  "tissue_table =
     [(''bone'', 200, 2000, (1, 9/10, 8/10)),
      (''softtissue'', -100, 200, (9/10, 7/10, 6/10)),
      (''lung'', -1000, -100, (4/10, 6/10, 8/10)),
      (''vessel'', 100, 400, (8/10, 2/10, 2/10))]"

definition boundary_points :: "string \<times> real \<Rightarrow> tf_point list" where
  "boundary_points entry =
     (case entry of (tissue, opacity) \<Rightarrow>
        (case map_of tissue_table tissue of
           None \<Rightarrow> []
         | Some (lo, hi, (r, g, b)) \<Rightarrow>
             [\<lparr>point_value = Some lo, point_opacity = opacity, point_color = Color r g b\<rparr>,
              \<lparr>point_value = Some hi, point_opacity = opacity, point_color = Color r g b\<rparr>]))"

definition tissue_points :: "(string \<times> real) list \<Rightarrow> tf_point list" where
  "tissue_points tissueOpacities = concat (map boundary_points tissueOpacities)"

section \<open>Observations and example states\<close>

text \<open>The scalar-opacity nodes of the first actor, when the viewport has one.\<close>

definition opacity_ramp :: "viewer \<Rightarrow> (real \<times> real) list option" where
  "opacity_ramp st =
     (case viewport st of
        None \<Rightarrow> None
      | Some vp \<Rightarrow>
          (case vp_actors vp of
             [] \<Rightarrow> None
           | e # _ \<Rightarrow> map_option scalarOpacity (actor e)))"

text \<open>The transfer-function points stored in the viewport's properties.\<close>

definition stored_points :: "viewer \<Rightarrow> tf_point list option" where
  "stored_points st =
     (case viewport st of None \<Rightarrow> None | Some vp \<Rightarrow> transferFunctionPoints vp)"

text \<open>A tool is active for a gesture when the gesture is among its bindings.\<close>

definition active_for :: "mouse_button \<Rightarrow> tool_group \<Rightarrow> string \<Rightarrow> bool" where
  "active_for b tg toolName =
     (case map_of tg toolName of None \<Rightarrow> False | Some bs \<Rightarrow> b \<in> set bs)"

text \<open>The viewer's tool name for each of the application's names.\<close>

definition tool_of :: "string \<Rightarrow> string" where
  "tool_of X =
     (if X = ''Rotate'' then TrackballRotateTool_toolName
      else if X = ''Pan'' then PanTool_toolName
      else ZoomTool_toolName)"

text \<open>
  A viewer after a volume of bounds \<open>(0,0,0)\<close> to \<open>(100,100,100)\<close> was bound from two
  slices: one actor, an opacity ramp for the window of width 400 and centre 50.
\<close>

definition camera0 :: camera where
  "camera0 = \<lparr>position = (3, 4, 5), focalPoint = (1, 1, 1), viewUp = (0, 1, 0),
     parallelProjection = False, viewAngle = 30, clippingRange = (1, 1000)\<rparr>"

definition volume0 :: volume where
  "volume0 = \<lparr>imageData_bounds = \<lparr>b0 = 0, b1 = 100, b2 = 0, b3 = 100, b4 = 0, b5 = 100\<rparr>\<rparr>"

definition actor0 :: volume_actor where
  "actor0 = \<lparr>scalarOpacity = [(-150, 0), (250, 1)],
     rgbTransferFunction = [(0, 0, 0, 0), (1000, 1, 1, 1)]\<rparr>"

definition viewport0 :: viewport where
  "viewport0 = \<lparr>vp_camera = camera0, vp_actors = [\<lparr>actor = Some actor0\<rparr>],
     voiRange = None, globalOpacityMultiplier = None, vp_preset = Some ''CT-Bone'',
     transferFunctionPoints = None\<rparr>"

definition volume_data0 :: volume_data where
  "volume_data0 = \<lparr>vd_volume = volume0, imageIds = [''slice1'', ''slice2''], vd_metadata = []\<rparr>"

definition viewer0 :: viewer where
  "viewer0 = \<lparr>viewport = Some viewport0, toolGroup = None, isInitialized = True,
     currentVolumeData = Some volume_data0, cache_volume = Some volume0, console = []\<rparr>"

text \<open>The same viewer with a \<^verbatim>\<open>voiRange\<close> among the viewport's properties.\<close>

definition viewer_voi :: viewer where
  "viewer_voi = viewer0\<lparr>viewport := Some (viewport0\<lparr>voiRange := Some (0, 100)\<rparr>)\<rparr>"

text \<open>An initialised viewer with no volume bound.\<close>

definition viewer_unbound :: viewer where
  "viewer_unbound = viewer0\<lparr>currentVolumeData := None, cache_volume := None\<rparr>"

text \<open>The viewer after \<^verbatim>\<open>setupToolGroup\<close>: rotate on the primary button, zoom on the
  wheel.\<close>

definition viewer_tools :: viewer where
  "viewer_tools = setupToolGroup viewer0"

text \<open>The viewer after the bone opacity was set to 0.7.\<close>

definition viewer_bone :: viewer where
  "viewer_bone = setTissueOpacities [(''bone'', 7/10)] viewer0"

text \<open>The preset \<^verbatim>\<open>'ct-bone'\<close> of \<^verbatim>\<open>MedicalImagingApp.apply3DPreset\<close>.\<close>

definition ct_bone :: preset where
  "ct_bone = \<lparr>preset_name = ''CT Bone'',
     colorPoints = Some
       [\<lparr>cp_value = -1000, cp_color = (0, 0, 0, 0)\<rparr>,
        \<lparr>cp_value = 200, cp_color = (8/10, 6/10, 4/10, 1/10)\<rparr>,
        \<lparr>cp_value = 800, cp_color = (1, 9/10, 8/10, 3/10)\<rparr>,
        \<lparr>cp_value = 2000, cp_color = (1, 1, 1, 1)\<rparr>],
     windowLevel = Some \<lparr>width = 2000, center = 300\<rparr>,
     preset_opacity = Some (7/10)\<rparr>"

text \<open>Files that pass \<^verbatim>\<open>isDicomFile\<close>, a decoder that fulfils every load, an engine run
  that completes, and an application whose viewer is initialised and holds no volume.\<close>

definition slice_file :: "string \<Rightarrow> dicom_file" where
  "slice_file n = \<lparr>file_name = n, file_type = ''application/dicom''\<rparr>"

definition decode_all :: "dicom_file \<Rightarrow> loaded_image settled" where
  "decode_all f =
     Fulfilled \<lparr>li_imageId = ''dicomfile:'' @ file_name f, li_metadata = [],
                li_fileName = file_name f\<rparr>"

definition run0 :: engine_run where
  "run0 = Completes volume0 [\<lparr>actor = Some actor0\<rparr>]"

definition app0 :: app where
  "app0 = \<lparr>volumeViewer = Some (setupToolGroup viewer_unbound), currentImages = [],
     app_isInitialized = True\<rparr>"

section \<open>Properties of window and level\<close>

lemma addPoint_pair:
  "addPoint x2 y2 (addPoint x1 y1 []) =
     (if x1 < x2 then [(x1, y1), (x2, y2)]
      else if x2 < x1 then [(x2, y2), (x1, y1)]
      else [(x2, y2)])"
  by (simp add: addPoint_def)

lemma window_ramp:
  "addPoint (c + w / 2) (1::real) (addPoint (c - w / 2) 0 (removeAllPoints f)) =
     (if 0 < w then [(c - w / 2, 0), (c + w / 2, 1)]
      else if w < 0 then [(c + w / 2, 1), (c - w / 2, 0)]
      else [(c, 1)])"
  by (simp add: addPoint_pair removeAllPoints_def)

lemma currentVolumeData_setWindowLevel:
  "currentVolumeData (setWindowLevel w c st) = currentVolumeData st"
  by (simp add: setWindowLevel_def console_warn_def console_log_def Let_def
      split: option.splits list.splits)

lemma voiRange_setWindowLevel:
  "map_option voiRange (viewport (setWindowLevel w c st)) = map_option voiRange (viewport st)"
  by (simp add: setWindowLevel_def console_warn_def console_log_def Let_def
      split: option.splits list.splits)

lemma getWindowLevel_reads:
  "getWindowLevel st =
     (case currentVolumeData st of
        None \<Rightarrow> \<lparr>width = 400, center = 50\<rparr>
      | Some _ \<Rightarrow>
          (case map_option voiRange (viewport st) of
             Some (Some (lower, upper)) \<Rightarrow>
               \<lparr>width = upper - lower, center = lower + (upper - lower) / 2\<rparr>
           | _ \<Rightarrow> \<lparr>width = 400, center = 50\<rparr>))"
  by (simp add: getWindowLevel_def Let_def split: option.splits)

text \<open>The setter never changes what the getter reads.\<close>

lemma getWindowLevel_setWindowLevel:
  "getWindowLevel (setWindowLevel w c st) = getWindowLevel st"
  by (simp only: getWindowLevel_reads currentVolumeData_setWindowLevel voiRange_setWindowLevel)

lemma getWindowLevel_calls:
  "getWindowLevel (fold (\<lambda>(w, c). setWindowLevel w c) calls st) = getWindowLevel st"
  by (induction calls arbitrary: st) (auto simp: getWindowLevel_setWindowLevel)

text \<open>
  Claim C1, as the code has it. \<^verbatim>\<open>setWindowLevel(width, center)\<close> does not look at the
  sign of the width. On a viewer with a viewport, a bound volume and a volume actor it
  replaces the opacity ramp, for every width: by the nodes \<open>(center - width/2, 0)\<close> and
  \<open>(center + width/2, 1)\<close>, which for a negative width stand in the opposite order and
  for width 0 fall on one node; three lines are logged and nothing else changes. The
  call is a no-op with a warning exactly when the viewport or the volume is missing.
\<close>

theorem setWindowLevel_any_width:
  "(viewport st = None \<or> currentVolumeData st = None \<longrightarrow>
      setWindowLevel w c st
        = st\<lparr>console := console st
               @ [(ConsoleWarn, ''No volume available for window level adjustment'')]\<rparr>)
   \<and> (viewport st = Some vp \<and> currentVolumeData st = Some d
        \<and> vp_actors vp = e # others \<and> actor e = Some a \<longrightarrow>
      setWindowLevel w c st
        = st\<lparr>viewport := Some (vp\<lparr>vp_actors :=
                 e\<lparr>actor := Some (a\<lparr>scalarOpacity :=
                       (if 0 < w then [(c - w / 2, 0), (c + w / 2, 1)]
                        else if w < 0 then [(c + w / 2, 1), (c - w / 2, 0)]
                        else [(c, 1)])\<rparr>)\<rparr> # others\<rparr>),
              console := console st
               @ [(ConsoleLog, ''Volume actor found:''),
                  (ConsoleLog, ''Setting window level on volume actor:''),
                  (ConsoleLog, ''Window level: Width='')]\<rparr>)"
  by (auto simp: setWindowLevel_def console_warn_def console_log_def Let_def window_ramp
      split: option.splits)

theorem setWindowLevel_any_width_witness:
  "setWindowLevel 0 50 viewer_unbound
     = viewer_unbound
         \<lparr>console := [(ConsoleWarn, ''No volume available for window level adjustment'')]\<rparr>
   \<and> opacity_ramp (setWindowLevel 0 50 viewer0) = Some [(50, 1)]
   \<and> opacity_ramp (setWindowLevel 400 50 viewer0) = Some [(-150, 0), (250, 1)]"
  using setWindowLevel_any_width
          [of viewer_unbound 0 50 viewport0 volume_data0 "\<lparr>actor = Some actor0\<rparr>" "[]" actor0]
        setWindowLevel_any_width
          [of viewer0 0 50 viewport0 volume_data0 "\<lparr>actor = Some actor0\<rparr>" "[]" actor0]
        setWindowLevel_any_width
          [of viewer0 400 50 viewport0 volume_data0 "\<lparr>actor = Some actor0\<rparr>" "[]" actor0]
  by (simp add: viewer_unbound_def viewer0_def viewport0_def opacity_ramp_def)

text \<open>
  Claim C1, as stated, fails: with the non-positive width \<open>-100\<close> the call is not
  rejected. On the example viewer it logs no warning and replaces the ramp
  \<open>[(-150, 0), (250, 1)]\<close> by \<open>[(0, 1), (100, 0)]\<close>.
\<close>

theorem setWindowLevel_nonpositive_counterexample:
  "(-100::real) \<le> 0
   \<and> opacity_ramp viewer0 = Some [(-150, 0), (250, 1)]
   \<and> opacity_ramp (setWindowLevel (-100) 50 viewer0) = Some [(0, 1), (100, 0)]
   \<and> ConsoleWarn \<notin> fst ` set (console (setWindowLevel (-100) 50 viewer0))"
  by (simp add: opacity_ramp_def setWindowLevel_def viewer0_def viewport0_def actor0_def
        volume_data0_def console_log_def addPoint_pair removeAllPoints_def Let_def)

text \<open>
  Claim C2 at a failing input. After \<^verbatim>\<open>setWindowLevel(2000, 300)\<close> on a viewer with a
  bound volume the opacity ramp is the one of that window, and \<^verbatim>\<open>getWindowLevel()\<close>
  returns width 400 and centre 50 when the viewport has no \<^verbatim>\<open>voiRange\<close>, and the
  window of the \<^verbatim>\<open>voiRange\<close> (here width 100, centre 50) when it has one: never the
  window that was set.
\<close>

theorem set_then_get_window_level:
  "opacity_ramp (setWindowLevel 2000 300 viewer0) = Some [(-700, 0), (1300, 1)]
   \<and> getWindowLevel (setWindowLevel 2000 300 viewer0) = \<lparr>width = 400, center = 50\<rparr>
   \<and> getWindowLevel (setWindowLevel 2000 300 viewer_voi) = \<lparr>width = 100, center = 50\<rparr>"
  by (simp add: getWindowLevel_setWindowLevel getWindowLevel_def viewer_voi_def
        opacity_ramp_def setWindowLevel_def viewer0_def viewport0_def actor0_def volume_data0_def
        console_log_def addPoint_pair removeAllPoints_def Let_def)

text \<open>
  Claim C10. When no volume is bound, when there is no viewport, or when the viewport's
  properties hold no \<^verbatim>\<open>voiRange\<close>, \<^verbatim>\<open>getWindowLevel()\<close> returns the fixed default of
  width 400 and centre 50, also after any sequence of \<^verbatim>\<open>setWindowLevel\<close> calls: it
  reflects none of the values passed to them.
\<close>

theorem getWindowLevel_default:
  assumes "currentVolumeData st = None \<or> viewport st = None
           \<or> (\<exists>vp. viewport st = Some vp \<and> voiRange vp = None)"
  shows "getWindowLevel (fold (\<lambda>(w, c). setWindowLevel w c) calls st)
         = \<lparr>width = 400, center = 50\<rparr>"
proof -
  have "getWindowLevel st = \<lparr>width = 400, center = 50\<rparr>"
    using assms by (auto simp: getWindowLevel_def split: option.splits)
  then show ?thesis by (simp add: getWindowLevel_calls)
qed

theorem getWindowLevel_default_witness:
  "viewport viewer0 = Some viewport0 \<and> voiRange viewport0 = None
   \<and> currentVolumeData viewer0 \<noteq> None
   \<and> getWindowLevel viewer0 = \<lparr>width = 400, center = 50\<rparr>
   \<and> getWindowLevel (setWindowLevel 2000 300 viewer0) = \<lparr>width = 400, center = 50\<rparr>
   \<and> getWindowLevel (setWindowLevel 2000 300 viewer_unbound) = \<lparr>width = 400, center = 50\<rparr>"
proof -
  have h: "currentVolumeData viewer0 = None \<or> viewport viewer0 = None
           \<or> (\<exists>vp. viewport viewer0 = Some vp \<and> voiRange vp = None)"
    by (simp add: viewer0_def viewport0_def)
  have u: "currentVolumeData viewer_unbound = None \<or> viewport viewer_unbound = None
           \<or> (\<exists>vp. viewport viewer_unbound = Some vp \<and> voiRange vp = None)"
    by (simp add: viewer_unbound_def)
  show ?thesis
    using getWindowLevel_default [OF h, of "[(2000, 300)]"] getWindowLevel_default [OF h, of "[]"]
      getWindowLevel_default [OF u, of "[(2000, 300)]"]
    by (simp add: viewer0_def viewport0_def)
qed

section \<open>Properties of presets and tissue opacities\<close>

text \<open>
  Claim C6. On a viewer with no bound volume \<^verbatim>\<open>apply3DPreset(p)\<close> logs one warning and
  changes nothing else, for every preset: none of its three steps runs.
\<close>

theorem apply3DPreset_unbound:
  assumes "currentVolumeData st = None"
  shows "apply3DPreset p st
         = st\<lparr>console := console st
               @ [(ConsoleWarn, ''No volume available for preset application'')]\<rparr>"
  using assms by (simp add: apply3DPreset_def console_warn_def)

theorem apply3DPreset_unbound_witness:
  "currentVolumeData viewer_unbound = None
   \<and> viewport (apply3DPreset ct_bone viewer_unbound) = Some viewport0
   \<and> currentVolumeData (apply3DPreset ct_bone viewer_unbound) = None
   \<and> console (apply3DPreset ct_bone viewer_unbound)
       = [(ConsoleWarn, ''No volume available for preset application'')]
   \<and> opacity_ramp (apply3DPreset ct_bone viewer0) = Some [(-700, 0), (1300, 1)]"
proof -
  have h: "currentVolumeData viewer_unbound = None"
    by (simp add: viewer_unbound_def)
  have bound: "opacity_ramp (apply3DPreset ct_bone viewer0) = Some [(-700, 0), (1300, 1)]"
    by (simp add: apply3DPreset_def ct_bone_def viewer0_def viewport0_def actor0_def
          volume_data0_def setWindowLevel_def setRGBTransferFunction_def setVolumeOpacity_def
          opacity_ramp_def console_log_def addPoint_def removeAllPoints_def addRGBPoint_def
          Let_def)
  show ?thesis
    using apply3DPreset_unbound [OF h, of ct_bone] h bound
    by (simp add: viewer_unbound_def viewer0_def)
qed

lemma push_tissue_boundary:
  assumes "fst entry \<notin> set object_prototype_keys"
  shows "push_tissue entry points = points @ boundary_points entry"
proof (cases entry)
  case (Pair tissue opacity)
  then have k: "tissue \<notin> set object_prototype_keys" using assms by simp
  consider "tissue = ''bone''" | "tissue = ''softtissue''" | "tissue = ''lung''"
    | "tissue = ''vessel''"
    | "tissue \<notin> {''bone'', ''softtissue'', ''lung'', ''vessel''}" by auto
  then show ?thesis
  proof cases
    case 5
    then show ?thesis using Pair k
      by (simp add: push_tissue_def boundary_points_def property_def tissueRanges_def
            tissue_table_def)
  qed (simp_all add: Pair push_tissue_def boundary_points_def property_def tissueRanges_def
         tissue_table_def getTissueColor_def tissueColors_def)
qed

lemma fold_push_tissue:
  assumes "fst ` set m \<inter> set object_prototype_keys = {}"
  shows "fold push_tissue m points = points @ tissue_points m"
  using assms
proof (induction m arbitrary: points)
  case Nil
  then show ?case by (simp add: tissue_points_def)
next
  case (Cons entry m)
  then have "fst entry \<notin> set object_prototype_keys"
    and "fst ` set m \<inter> set object_prototype_keys = {}" by auto
  then show ?case
    using Cons.IH by (simp add: push_tissue_boundary tissue_points_def)
qed

text \<open>
  Claim C8, as the code has it. On a viewer with a viewport and a bound volume, and for
  a map none of whose keys is a property inherited by the range table, the points built
  are, entry by entry, the two boundary values of each key found in the table, with the
  tissue's colour and the requested opacity; other keys add nothing. The points replace
  the viewport's transfer-function points when there is at least one of them; when
  there is none, the points stored before are kept.
\<close>

theorem setTissueOpacities_rebuilds:
  assumes "viewport st = Some vp" and "currentVolumeData st = Some d"
    and "fst ` set m \<inter> set object_prototype_keys = {}"
  shows "setTissueOpacities m st
         = (if tissue_points m = []
            then st\<lparr>console := console st
                      @ [(ConsoleLog, ''Applied tissue-specific opacities:'')]\<rparr>
            else st\<lparr>viewport := Some (vp\<lparr>transferFunctionPoints := Some (tissue_points m)\<rparr>),
                    console := console st
                      @ [(ConsoleLog, ''Applied tissue-specific opacities:'')]\<rparr>)"
  using assms fold_push_tissue [OF assms(3), of "[]"]
  by (simp add: setTissueOpacities_def console_log_def Let_def)

theorem setTissueOpacities_rebuilds_witness:
  "viewport viewer0 = Some viewport0 \<and> currentVolumeData viewer0 = Some volume_data0
   \<and> fst ` set [(''bone'', 7/10), (''fat'', 1/2), (''lung'', 3/10 :: real)]
         \<inter> set object_prototype_keys = {}
   \<and> stored_points
        (setTissueOpacities [(''bone'', 7/10), (''fat'', 1/2), (''lung'', 3/10)] viewer0)
       = Some
          [\<lparr>point_value = Some 200, point_opacity = 7/10, point_color = Color 1 (9/10) (8/10)\<rparr>,
           \<lparr>point_value = Some 2000, point_opacity = 7/10, point_color = Color 1 (9/10) (8/10)\<rparr>,
           \<lparr>point_value = Some (-1000), point_opacity = 3/10,
            point_color = Color (4/10) (6/10) (8/10)\<rparr>,
           \<lparr>point_value = Some (-100), point_opacity = 3/10,
            point_color = Color (4/10) (6/10) (8/10)\<rparr>]"
proof -
  have vp: "viewport viewer0 = Some viewport0"
    and d: "currentVolumeData viewer0 = Some volume_data0"
    by (simp_all add: viewer0_def)
  have k: "fst ` set [(''bone'', 7/10), (''fat'', 1/2), (''lung'', 3/10 :: real)]
             \<inter> set object_prototype_keys = {}"
    by (simp add: object_prototype_keys_def)
  have p: "tissue_points [(''bone'', 7/10), (''fat'', 1/2), (''lung'', 3/10)]
       = [\<lparr>point_value = Some 200, point_opacity = 7/10, point_color = Color 1 (9/10) (8/10)\<rparr>,
          \<lparr>point_value = Some 2000, point_opacity = 7/10, point_color = Color 1 (9/10) (8/10)\<rparr>,
          \<lparr>point_value = Some (-1000), point_opacity = 3/10,
           point_color = Color (4/10) (6/10) (8/10)\<rparr>,
          \<lparr>point_value = Some (-100), point_opacity = 3/10,
           point_color = Color (4/10) (6/10) (8/10)\<rparr>]"
    by (simp add: tissue_points_def boundary_points_def tissue_table_def)
  show ?thesis
    using setTissueOpacities_rebuilds [OF vp d k] vp d k
    by (simp add: p stored_points_def)
qed

text \<open>
  Claim C8, as stated, fails: a map with no key of the table does not rebuild the point
  list. After the bone opacity was set, a call with the only key \<^verbatim>\<open>fat\<close> builds no
  point and leaves the two bone points in place.
\<close>

theorem setTissueOpacities_counterexample:
  "tissue_points [(''fat'', 1/2)] = []
   \<and> stored_points viewer_bone
       = Some
          [\<lparr>point_value = Some 200, point_opacity = 7/10, point_color = Color 1 (9/10) (8/10)\<rparr>,
           \<lparr>point_value = Some 2000, point_opacity = 7/10, point_color = Color 1 (9/10) (8/10)\<rparr>]
   \<and> stored_points (setTissueOpacities [(''fat'', 1/2)] viewer_bone) = stored_points viewer_bone
   \<and> stored_points (setTissueOpacities [(''fat'', 1/2)] viewer_bone)
       \<noteq> Some (tissue_points [(''fat'', 1/2)])"
  by (simp add: viewer_bone_def viewer0_def setTissueOpacities_def push_tissue_def property_def
        tissueRanges_def getTissueColor_def tissueColors_def object_prototype_keys_def
        console_log_def stored_points_def tissue_points_def boundary_points_def tissue_table_def
        Let_def)

section \<open>Properties of the camera\<close>

text \<open>
  Claim C7. With a viewport and a cached volume, \<^verbatim>\<open>setupInitialCamera()\<close> sets the focal
  point to the centre of the bounds (the midpoint on each axis), the position to the
  centre plus the diagonal times \<open>(0.8, -0.8, 0.8)\<close>, the diagonal being the Euclidean
  length of the extent, the view-up to \<open>(0, 0, 1)\<close> and the clipping range to
  \<open>(0.01 diagonal, 100 diagonal)\<close>, and enables parallel projection with view angle
  45; nothing else changes.
\<close>

theorem setupInitialCamera_frames_volume:
  assumes "viewport st = Some vp" and "cache_volume st = Some vol"
  shows "setupInitialCamera st
         = (let b = imageData_bounds vol; d = bounds_diagonal b in
            case bounds_center b of (cx, cy, cz) \<Rightarrow>
            st\<lparr>viewport := Some (vp\<lparr>vp_camera :=
                 \<lparr>position = (cx + d * (8/10), cy - d * (8/10), cz + d * (8/10)),
                  focalPoint = (cx, cy, cz),
                  viewUp = (0, 0, 1),
                  parallelProjection = True,
                  viewAngle = 45,
                  clippingRange = (d / 100, 100 * d)\<rparr>\<rparr>)\<rparr>)"
  using assms
  by (simp add: setupInitialCamera_def Let_def bounds_center_def bounds_diagonal_def
        euclidean_length_def power2_eq_square)

lemma sqrt_30000_bounds: "173.2 < sqrt 30000" "sqrt 30000 < 173.21"
proof -
  have "(173.2::real)\<^sup>2 < 30000" by (simp add: power2_eq_square)
  then show "173.2 < sqrt 30000" by (rule real_less_rsqrt)
  have "(30000::real) < 173.21\<^sup>2" by (simp add: power2_eq_square)
  then show "sqrt 30000 < 173.21" by (rule real_less_lsqrt[rotated 1]) simp
qed

lemma diagonal_volume0: "bounds_diagonal (imageData_bounds volume0) = sqrt 30000"
  by (simp add: bounds_diagonal_def euclidean_length_def volume0_def)

text \<open>The scenario of the specification: bounds \<open>(0,0,0)\<close> to \<open>(100,100,100)\<close>.\<close>

theorem setupInitialCamera_frames_volume_witness:
  "viewport viewer0 = Some viewport0 \<and> cache_volume viewer0 = Some volume0
   \<and> (case map_option vp_camera (viewport (setupInitialCamera viewer0)) of
        None \<Rightarrow> False
      | Some cam \<Rightarrow>
          focalPoint cam = (50, 50, 50)
          \<and> (case position cam of (x, y, z) \<Rightarrow>
                \<bar>x - (50 + 138.6)\<bar> < 0.05 \<and> \<bar>y - (50 - 138.6)\<bar> < 0.05
                \<and> \<bar>z - (50 + 138.6)\<bar> < 0.05)
          \<and> viewUp cam = (0, 0, 1) \<and> parallelProjection cam \<and> viewAngle cam = 45
          \<and> (case clippingRange cam of (near, far) \<Rightarrow>
                near = bounds_diagonal (imageData_bounds volume0) / 100
                \<and> far = 100 * bounds_diagonal (imageData_bounds volume0)))
   \<and> \<bar>bounds_diagonal (imageData_bounds volume0) - 173.2\<bar> < 0.05"
proof -
  have vp: "viewport viewer0 = Some viewport0" and vol: "cache_volume viewer0 = Some volume0"
    by (simp_all add: viewer0_def)
  have c: "bounds_center (imageData_bounds volume0) = (50, 50, 50)"
    by (simp add: bounds_center_def volume0_def)
  show ?thesis
    using setupInitialCamera_frames_volume [OF vp vol] vp vol c sqrt_30000_bounds
    by (simp add: Let_def diagonal_volume0)
qed

lemma lower_xyz:
  "toLowerCase ''x'' = ''x''" "toLowerCase ''y'' = ''y''" "toLowerCase ''z'' = ''z''"
  by (simp_all add: toLowerCase_def lower_char_def)

lemma rotate_x:
  assumes "viewport st = Some vp"
    and "position (vp_camera vp) = (p0, p1, p2)"
    and "focalPoint (vp_camera vp) = (f0, f1, f2)"
    and "viewUp (vp_camera vp) = (u0, u1, u2)"
  shows "viewport (rotateAroundAxis ''x'' degrees st)
         = Some (vp\<lparr>vp_camera := (vp_camera vp)
             \<lparr>position := (case planar_rotation (degrees * pi / 180) (p1 - f1, p2 - f2) of
                              (a, b) \<Rightarrow> (p0, f1 + a, f2 + b)),
              viewUp := (case planar_rotation (degrees * pi / 180) (u1, u2) of
                              (a, b) \<Rightarrow> (u0, a, b))\<rparr>\<rparr>)"
  using assms
  by (simp add: rotateAroundAxis_def lower_xyz planar_rotation_def Let_def
        console_log_def algebra_simps)

lemma rotate_y:
  assumes "viewport st = Some vp"
    and "position (vp_camera vp) = (p0, p1, p2)"
    and "focalPoint (vp_camera vp) = (f0, f1, f2)"
    and "viewUp (vp_camera vp) = (u0, u1, u2)"
  shows "viewport (rotateAroundAxis ''y'' degrees st)
         = Some (vp\<lparr>vp_camera := (vp_camera vp)
             \<lparr>position := (case planar_rotation (degrees * pi / 180) (p2 - f2, p0 - f0) of
                              (a, b) \<Rightarrow> (f0 + b, p1, f2 + a)),
              viewUp := (case planar_rotation (degrees * pi / 180) (u2, u0) of
                              (a, b) \<Rightarrow> (b, u1, a))\<rparr>\<rparr>)"
  using assms
  by (simp add: rotateAroundAxis_def lower_xyz planar_rotation_def Let_def
        console_log_def algebra_simps)

lemma rotate_z:
  assumes "viewport st = Some vp"
    and "position (vp_camera vp) = (p0, p1, p2)"
    and "focalPoint (vp_camera vp) = (f0, f1, f2)"
    and "viewUp (vp_camera vp) = (u0, u1, u2)"
  shows "viewport (rotateAroundAxis ''z'' degrees st)
         = Some (vp\<lparr>vp_camera := (vp_camera vp)
             \<lparr>position := (case planar_rotation (degrees * pi / 180) (p0 - f0, p1 - f1) of
                              (a, b) \<Rightarrow> (f0 + a, f1 + b, p2)),
              viewUp := (case planar_rotation (degrees * pi / 180) (u0, u1) of
                              (a, b) \<Rightarrow> (a, b, u2))\<rparr>\<rparr>)"
  using assms
  by (simp add: rotateAroundAxis_def lower_xyz planar_rotation_def Let_def
        console_log_def algebra_simps)

text \<open>
  Claim C4. With \<open>r = degrees \<pi> / 180\<close> and the direction \<open>position - focal point\<close>,
  \<^verbatim>\<open>rotateAroundAxis\<close> changes only the camera's position and view-up (the focal point
  stays). For axis \<open>z\<close> the new position is the focal point plus the planar rotation by
  \<open>r\<close> of the direction's \<open>(x, y)\<close>, with the position's own \<open>z\<close>, and the new view-up is
  the planar rotation of the view-up's \<open>(x, y)\<close> with its own \<open>z\<close>. For axis \<open>x\<close> the same
  holds of the pair \<open>(y, z)\<close>, for axis \<open>y\<close> of the pair \<open>(z, x)\<close>, each with the named
  axis's own coordinate unchanged.
\<close>

theorem rotateAroundAxis_planar:
  assumes "viewport st = Some vp"
    and "position (vp_camera vp) = (p0, p1, p2)"
    and "focalPoint (vp_camera vp) = (f0, f1, f2)"
    and "viewUp (vp_camera vp) = (u0, u1, u2)"
  shows "viewport (rotateAroundAxis ''z'' degrees st)
         = Some (vp\<lparr>vp_camera := (vp_camera vp)
             \<lparr>position := (case planar_rotation (degrees * pi / 180) (p0 - f0, p1 - f1) of
                              (a, b) \<Rightarrow> (f0 + a, f1 + b, p2)),
              viewUp := (case planar_rotation (degrees * pi / 180) (u0, u1) of
                              (a, b) \<Rightarrow> (a, b, u2))\<rparr>\<rparr>)
       \<and> viewport (rotateAroundAxis ''x'' degrees st)
         = Some (vp\<lparr>vp_camera := (vp_camera vp)
             \<lparr>position := (case planar_rotation (degrees * pi / 180) (p1 - f1, p2 - f2) of
                              (a, b) \<Rightarrow> (p0, f1 + a, f2 + b)),
              viewUp := (case planar_rotation (degrees * pi / 180) (u1, u2) of
                              (a, b) \<Rightarrow> (u0, a, b))\<rparr>\<rparr>)
       \<and> viewport (rotateAroundAxis ''y'' degrees st)
         = Some (vp\<lparr>vp_camera := (vp_camera vp)
             \<lparr>position := (case planar_rotation (degrees * pi / 180) (p2 - f2, p0 - f0) of
                              (a, b) \<Rightarrow> (f0 + b, p1, f2 + a)),
              viewUp := (case planar_rotation (degrees * pi / 180) (u2, u0) of
                              (a, b) \<Rightarrow> (b, u1, a))\<rparr>\<rparr>)"
  using rotate_x [OF assms] rotate_y [OF assms] rotate_z [OF assms] by simp

text \<open>A camera at \<open>(3, 4, 5)\<close> looking at \<open>(1, 1, 1)\<close> with view-up \<open>(0, 1, 0)\<close>, turned
  by 90 degrees about each axis.\<close>

theorem rotateAroundAxis_planar_witness:
  "viewport viewer0 = Some viewport0
   \<and> position camera0 = (3, 4, 5) \<and> focalPoint camera0 = (1, 1, 1) \<and> viewUp camera0 = (0, 1, 0)
   \<and> map_option vp_camera (viewport (rotateAroundAxis ''z'' 90 viewer0))
       = Some (camera0\<lparr>position := (-2, 3, 5), viewUp := (-1, 0, 0)\<rparr>)
   \<and> map_option vp_camera (viewport (rotateAroundAxis ''x'' 90 viewer0))
       = Some (camera0\<lparr>position := (3, -3, 4), viewUp := (0, 0, 1)\<rparr>)
   \<and> map_option vp_camera (viewport (rotateAroundAxis ''y'' 90 viewer0))
       = Some (camera0\<lparr>position := (5, 4, -1), viewUp := (0, 1, 0)\<rparr>)"
proof -
  have vp: "viewport viewer0 = Some viewport0" by (simp add: viewer0_def)
  have p: "position (vp_camera viewport0) = (3, 4, 5)"
    and f: "focalPoint (vp_camera viewport0) = (1, 1, 1)"
    and u: "viewUp (vp_camera viewport0) = (0, 1, 0)"
    by (simp_all add: viewport0_def camera0_def)
  have c: "vp_camera viewport0 = camera0" by (simp add: viewport0_def)
  show ?thesis
    using rotateAroundAxis_planar [OF vp p f u, of 90] vp p f u
    by (simp add: planar_rotation_def c)
qed

lemma planar_rotation_inverse: "planar_rotation (- r) (planar_rotation r v) = v"
proof (cases v)
  case (Pair a b)
  have sc: "sin r * sin r + cos r * cos r = 1"
    using sin_cos_squared_add [of r] by (simp add: power2_eq_square)
  have "(a * cos r - b * sin r) * cos r + (a * sin r + b * cos r) * sin r
        = a * (sin r * sin r + cos r * cos r)"
    by algebra
  moreover have "(a * sin r + b * cos r) * cos r - (a * cos r - b * sin r) * sin r
        = b * (sin r * sin r + cos r * cos r)"
    by algebra
  ultimately show ?thesis
    using Pair sc by (simp add: planar_rotation_def)
qed

lemma camera_restored:
  assumes "position cam = p" and "viewUp cam = u"
  shows "cam\<lparr>position := p, viewUp := u\<rparr> = cam"
  using assms by auto

text \<open>
  Claim C5. For each axis \<open>x\<close>, \<open>y\<close>, \<open>z\<close> and every angle \<open>d\<close>,
  \<^verbatim>\<open>rotateAroundAxis(a, d)\<close> followed by \<^verbatim>\<open>rotateAroundAxis(a, -d)\<close> gives back the
  viewport it started from, camera position and view-up included. In real arithmetic
  the values are restored exactly.
\<close>

theorem rotateAroundAxis_inverse:
  assumes "viewport st = Some vp" and "axis \<in> {''x'', ''y'', ''z''}"
  shows "viewport (rotateAroundAxis axis (- degrees) (rotateAroundAxis axis degrees st))
         = viewport st"
proof -
  obtain p0 p1 p2 f0 f1 f2 u0 u1 u2 where
    cam: "position (vp_camera vp) = (p0, p1, p2)" "focalPoint (vp_camera vp) = (f0, f1, f2)"
         "viewUp (vp_camera vp) = (u0, u1, u2)"
    by (metis prod_cases3)
  let ?r = "degrees * pi / 180"
  from assms(2) consider "axis = ''x''" | "axis = ''y''" | "axis = ''z''" by auto
  then show ?thesis
  proof cases
    case 1
    obtain a b c d where
      ab: "planar_rotation ?r (p1 - f1, p2 - f2) = (a, b)" and
      cd: "planar_rotation ?r (u1, u2) = (c, d)" by fastforce
    have turned: "viewport (rotateAroundAxis ''x'' degrees st)
      = Some (vp\<lparr>vp_camera := (vp_camera vp)
                \<lparr>position := (p0, f1 + a, f2 + b), viewUp := (u0, c, d)\<rparr>\<rparr>)"
      using rotate_x [OF assms(1) cam, of degrees] ab cd by simp
    have "planar_rotation (- ?r) (a, b) = (p1 - f1, p2 - f2)"
      and "planar_rotation (- ?r) (c, d) = (u1, u2)"
      using planar_rotation_inverse [of ?r] ab cd by metis+
    then show ?thesis
      using rotate_x [OF turned, of p0 "f1 + a" "f2 + b" f0 f1 f2 u0 c d "- degrees"]
        cam assms(1)
      by (simp add: 1 camera_restored)
  next
    case 2
    obtain a b c d where
      ab: "planar_rotation ?r (p2 - f2, p0 - f0) = (a, b)" and
      cd: "planar_rotation ?r (u2, u0) = (c, d)" by fastforce
    have turned: "viewport (rotateAroundAxis ''y'' degrees st)
      = Some (vp\<lparr>vp_camera := (vp_camera vp)
                \<lparr>position := (f0 + b, p1, f2 + a), viewUp := (d, u1, c)\<rparr>\<rparr>)"
      using rotate_y [OF assms(1) cam, of degrees] ab cd by simp
    have "planar_rotation (- ?r) (a, b) = (p2 - f2, p0 - f0)"
      and "planar_rotation (- ?r) (c, d) = (u2, u0)"
      using planar_rotation_inverse [of ?r] ab cd by metis+
    then show ?thesis
      using rotate_y [OF turned, of "f0 + b" p1 "f2 + a" f0 f1 f2 d u1 c "- degrees"]
        cam assms(1)
      by (simp add: 2 camera_restored)
  next
    case 3
    obtain a b c d where
      ab: "planar_rotation ?r (p0 - f0, p1 - f1) = (a, b)" and
      cd: "planar_rotation ?r (u0, u1) = (c, d)" by fastforce
    have turned: "viewport (rotateAroundAxis ''z'' degrees st)
      = Some (vp\<lparr>vp_camera := (vp_camera vp)
                \<lparr>position := (f0 + a, f1 + b, p2), viewUp := (c, d, u2)\<rparr>\<rparr>)"
      using rotate_z [OF assms(1) cam, of degrees] ab cd by simp
    have "planar_rotation (- ?r) (a, b) = (p0 - f0, p1 - f1)"
      and "planar_rotation (- ?r) (c, d) = (u0, u1)"
      using planar_rotation_inverse [of ?r] ab cd by metis+
    then show ?thesis
      using rotate_z [OF turned, of "f0 + a" "f1 + b" p2 f0 f1 f2 c d u2 "- degrees"]
        cam assms(1)
      by (simp add: 3 camera_restored)
  qed
qed

theorem rotateAroundAxis_inverse_witness:
  "viewport viewer0 = Some viewport0 \<and> ''y'' \<in> {''x'', ''y'', ''z''}
   \<and> viewport (rotateAroundAxis ''y'' (- 15) (rotateAroundAxis ''y'' 15 viewer0))
       = Some viewport0"
proof -
  have vp: "viewport viewer0 = Some viewport0" by (simp add: viewer0_def)
  have ax: "''y'' \<in> {''x'', ''y'', ''z''}" by simp
  show ?thesis
    using rotateAroundAxis_inverse [OF vp ax, of 15] vp by simp
qed

section \<open>Properties of the tool group\<close>

lemma tool_names_distinct:
  "TrackballRotateTool_toolName \<noteq> PanTool_toolName"
  "TrackballRotateTool_toolName \<noteq> ZoomTool_toolName"
  "PanTool_toolName \<noteq> ZoomTool_toolName"
  by (simp_all add: TrackballRotateTool_toolName_def PanTool_toolName_def ZoomTool_toolName_def)

lemma map_of_setToolPassive:
  "map_of (setToolPassive n tg) =
     (case map_of tg n of
        None \<Rightarrow> map_of tg
      | Some prev \<Rightarrow> (map_of tg)(n \<mapsto> filter (\<lambda>b. b \<noteq> Primary) prev))"
  by (simp add: setToolPassive_def update_conv' split: option.splits)

lemma map_of_setToolActive:
  "map_of (setToolActive n bs tg) =
     (case map_of tg n of
        None \<Rightarrow> map_of tg
      | Some prev \<Rightarrow> (map_of tg)(n \<mapsto> remdups (prev @ bs)))"
  by (simp add: setToolActive_def update_conv' split: option.splits)

lemma active_for_setToolPassive:
  "active_for b (setToolPassive n tg) m = (active_for b tg m \<and> \<not> (m = n \<and> b = Primary))"
  by (auto simp: active_for_def map_of_setToolPassive split: option.splits)

lemma active_for_setToolActive:
  "active_for b (setToolActive n bs tg) m
     = (active_for b tg m \<or> (m = n \<and> b \<in> set bs \<and> map_of tg n \<noteq> None))"
  by (auto simp: active_for_def map_of_setToolActive split: option.splits)

lemma in_group_setToolPassive: "(map_of (setToolPassive n tg) m = None) = (map_of tg m = None)"
  by (auto simp: map_of_setToolPassive split: option.splits)

lemma in_group_setToolActive: "(map_of (setToolActive n bs tg) m = None) = (map_of tg m = None)"
  by (auto simp: map_of_setToolActive split: option.splits)

lemma toolMap_own:
  "property toolMap ''TrackballRotate'' = Own TrackballRotateTool_toolName"
  "property toolMap ''Pan'' = Own PanTool_toolName"
  "property toolMap ''Zoom'' = Own ZoomTool_toolName"
  by (simp_all add: property_def toolMap_def)

lemma toolMap_absent:
  assumes "toolName \<notin> {''TrackballRotate'', ''Pan'', ''Zoom''}"
    and "toolName \<notin> set object_prototype_keys"
  shows "property toolMap toolName = Absent"
  using assms by (simp add: property_def toolMap_def)

lemma setActiveTool_group:
  assumes "toolGroup st = Some tg" and "property toolMap toolName = Own actual"
  shows "toolGroup (setActiveTool toolName st)
         = Some (setToolActive actual [Primary]
                  (setToolActive ZoomTool_toolName [Wheel]
                    (setToolPassive ZoomTool_toolName
                      (setToolPassive PanTool_toolName
                        (setToolPassive TrackballRotateTool_toolName tg)))))"
  using assms by (simp add: setActiveTool_def Let_def console_log_def)

lemma primary_after:
  assumes "map_of tg actual \<noteq> None"
  shows "active_for Primary
           (setToolActive actual [Primary]
             (setToolActive ZoomTool_toolName [Wheel]
               (setToolPassive ZoomTool_toolName
                 (setToolPassive PanTool_toolName
                   (setToolPassive TrackballRotateTool_toolName tg))))) m
         = (m = actual \<or> (active_for Primary tg m
              \<and> m \<notin> {TrackballRotateTool_toolName, PanTool_toolName, ZoomTool_toolName}))"
  using assms
  by (simp add: active_for_setToolActive active_for_setToolPassive in_group_setToolActive
        in_group_setToolPassive) blast

lemma wheel_after:
  assumes "map_of tg ZoomTool_toolName \<noteq> None"
  shows "active_for Wheel
           (setToolActive actual [Primary]
             (setToolActive ZoomTool_toolName [Wheel]
               (setToolPassive ZoomTool_toolName
                 (setToolPassive PanTool_toolName
                   (setToolPassive TrackballRotateTool_toolName tg))))) ZoomTool_toolName"
  using assms
  by (simp add: active_for_setToolActive active_for_setToolPassive in_group_setToolActive
        in_group_setToolPassive)

text \<open>
  The viewer's \<^verbatim>\<open>setActiveTool\<close> on its three names: afterwards exactly the requested
  tool is active for the primary button, and zoom is active for the wheel.
\<close>

lemma setActiveTool_accepted:
  assumes "toolGroup st = Some tg"
    and "map_of tg TrackballRotateTool_toolName \<noteq> None"
    and "map_of tg PanTool_toolName \<noteq> None"
    and "map_of tg ZoomTool_toolName \<noteq> None"
    and "property toolMap toolName = Own actual"
    and "actual \<in> {TrackballRotateTool_toolName, PanTool_toolName, ZoomTool_toolName}"
  shows "\<exists>tg'. toolGroup (setActiveTool toolName st) = Some tg'
           \<and> filter (active_for Primary tg')
                [TrackballRotateTool_toolName, PanTool_toolName, ZoomTool_toolName] = [actual]
           \<and> active_for Wheel tg' ZoomTool_toolName"
  using assms(2-4,6) tool_names_distinct
  by (auto simp: setActiveTool_group [OF assms(1,5)] primary_after wheel_after)

text \<open>A name that is no property of the table, own or inherited, is a no-op with a
  warning.\<close>

lemma setActiveTool_rejected:
  assumes "toolName \<notin> {''TrackballRotate'', ''Pan'', ''Zoom''}"
    and "toolName \<notin> set object_prototype_keys"
    and "toolGroup st = Some tg"
  shows "setActiveTool toolName st
         = st\<lparr>console := console st @ [(ConsoleWarn, ''Invalid tool name:'')]\<rparr>"
  using assms by (simp add: setActiveTool_def toolMap_absent console_warn_def)

lemma app_table:
  "property [(''Rotate'', ''TrackballRotate''), (''Pan'', ''Pan''), (''Zoom'', ''Zoom'')] ''Rotate''
     = Own ''TrackballRotate''"
  "property [(''Rotate'', ''TrackballRotate''), (''Pan'', ''Pan''), (''Zoom'', ''Zoom'')] ''Pan''
     = Own ''Pan''"
  "property [(''Rotate'', ''TrackballRotate''), (''Pan'', ''Pan''), (''Zoom'', ''Zoom'')] ''Zoom''
     = Own ''Zoom''"
  by (simp_all add: property_def)

text \<open>
  The application's \<^verbatim>\<open>setActiveTool(X)\<close> for \<open>X\<close> among Rotate, Pan and Zoom, on an
  initialised tool group with the three tools: afterwards exactly one of the three tools
  is active for the primary button, it is the tool of \<open>X\<close>, and zoom is active for the
  wheel.
\<close>

lemma app_setActiveTool_accepted:
  assumes "volumeViewer a = Some v" and "toolGroup v = Some tg"
    and "map_of tg TrackballRotateTool_toolName \<noteq> None"
    and "map_of tg PanTool_toolName \<noteq> None"
    and "map_of tg ZoomTool_toolName \<noteq> None"
    and "X \<in> {''Rotate'', ''Pan'', ''Zoom''}"
  shows "\<exists>v' tg'. volumeViewer (app_setActiveTool X a) = Some v' \<and> toolGroup v' = Some tg'
           \<and> filter (active_for Primary tg')
                [TrackballRotateTool_toolName, PanTool_toolName, ZoomTool_toolName] = [tool_of X]
           \<and> active_for Wheel tg' ZoomTool_toolName"
proof -
  from assms(6) consider "X = ''Rotate''" | "X = ''Pan''" | "X = ''Zoom''" by auto
  then show ?thesis
  proof cases
    case 1
    then show ?thesis
      using setActiveTool_accepted [OF assms(2-5) toolMap_own(1)] assms(1)
      by (simp add: app_setActiveTool_def app_table tool_of_def)
  next
    case 2
    then show ?thesis
      using setActiveTool_accepted [OF assms(2-5) toolMap_own(2)] assms(1)
      by (simp add: app_setActiveTool_def app_table tool_of_def)
  next
    case 3
    then show ?thesis
      using setActiveTool_accepted [OF assms(2-5) toolMap_own(3)] assms(1)
      by (simp add: app_setActiveTool_def app_table tool_of_def)
  qed
qed

lemma inherited_as_key_absent:
  assumes "k \<in> set object_prototype_keys"
  shows "property toolMap (inherited_as_key k) = Absent"
  using assms
  by (auto simp: object_prototype_keys_def inherited_as_key_def property_def toolMap_def)

text \<open>Through the application, any other name leaves the tool group as it was.\<close>

lemma app_setActiveTool_other:
  assumes "X \<notin> {''Rotate'', ''Pan'', ''Zoom''}" and "volumeViewer a = Some v"
  shows "\<exists>v'. volumeViewer (app_setActiveTool X a) = Some v' \<and> toolGroup v' = toolGroup v"
proof (cases "X \<in> set object_prototype_keys")
  case True
  then have "property [(''Rotate'', ''TrackballRotate''), (''Pan'', ''Pan''), (''Zoom'', ''Zoom'')] X
     = Inherited" using assms(1) by (simp add: property_def)
  then show ?thesis
    using assms(2) inherited_as_key_absent [OF True]
    by (simp add: app_setActiveTool_def setActiveTool_def console_warn_def Let_def
        split: option.splits)
next
  case False
  then have "property [(''Rotate'', ''TrackballRotate''), (''Pan'', ''Pan''), (''Zoom'', ''Zoom'')] X
     = Absent" using assms(1) by (simp add: property_def)
  then show ?thesis using assms(2) by (simp add: app_setActiveTool_def)
qed

lemma toolGroup_viewer_tools:
  "toolGroup viewer_tools
     = Some [(''TrackballRotate'', [Primary]), (''Pan'', []), (''Zoom'', [Wheel])]"
  by code_simp

lemma toolGroup_constructor:
  "toolGroup (setActiveTool ''constructor'' viewer_tools)
     = Some [(''TrackballRotate'', []), (''Pan'', []), (''Zoom'', [Wheel])]"
  by code_simp

lemma console_constructor:
  "map fst (console (setActiveTool ''constructor'' viewer_tools))
     = [ConsoleLog, ConsoleLog, ConsoleLog, ConsoleLog]"
  by code_simp

text \<open>
  Claim C3 at a failing input. The name \<^verbatim>\<open>constructor\<close> is outside the accepted
  set, yet the viewer's \<^verbatim>\<open>setActiveTool('constructor')\<close> is not a no-op: after
  \<^verbatim>\<open>setupToolGroup\<close> rotate holds the primary button; after the call no tool is active
  for the primary button, and no warning was logged.
\<close>

theorem setActiveTool_inherited_name:
  "''constructor'' \<notin> {''TrackballRotate'', ''Pan'', ''Zoom''}
   \<and> toolGroup viewer_tools
       = Some [(''TrackballRotate'', [Primary]), (''Pan'', []), (''Zoom'', [Wheel])]
   \<and> toolGroup (setActiveTool ''constructor'' viewer_tools)
       = Some [(''TrackballRotate'', []), (''Pan'', []), (''Zoom'', [Wheel])]
   \<and> filter (active_for Primary [(''TrackballRotate'', []), (''Pan'', []), (''Zoom'', [Wheel])])
        [TrackballRotateTool_toolName, PanTool_toolName, ZoomTool_toolName] = []
   \<and> ConsoleWarn \<notin> set (map fst (console (setActiveTool ''constructor'' viewer_tools)))"
  by (simp add: toolGroup_viewer_tools toolGroup_constructor console_constructor active_for_def
        TrackballRotateTool_toolName_def PanTool_toolName_def ZoomTool_toolName_def)

section \<open>Properties of binding a volume\<close>

lemma viewport_setActiveTool: "viewport (setActiveTool n st) = viewport st"
  by (simp add: setActiveTool_def console_warn_def console_log_def Let_def split: option.splits)

lemma currentVolumeData_setActiveTool:
  "currentVolumeData (setActiveTool n st) = currentVolumeData st"
  by (simp add: setActiveTool_def console_warn_def console_log_def Let_def split: option.splits)

lemma displayVolume_completes:
  assumes "isInitialized st" and "viewport st = Some vp"
  shows "\<exists>st'. displayVolume ids md (Completes vol actors) st = (st', None)
           \<and> currentVolumeData st' = Some \<lparr>vd_volume = vol, imageIds = ids, vd_metadata = md\<rparr>
           \<and> cache_volume st' = Some vol
           \<and> viewport st' \<noteq> None"
  using assms
  by (simp add: displayVolume_def Let_def console_log_def setupInitialCamera_def)

text \<open>
  Claim C9. \<^verbatim>\<open>loadVolumeFromFiles\<close> raises an error and leaves the application (and so
  any volume bound before) untouched when fewer than two files loaded successfully.
  With exactly two, an initialised viewer with a viewport and an engine run that
  completes, it raises nothing and leaves a bound volume of two image ids.
\<close>

theorem loadVolumeFromFiles_minimum:
  "(length (successful (loadMultipleDicomFiles decode files)) < 2 \<longrightarrow>
      loadVolumeFromFiles decode run files a = (a, Some (Error ''Need at least 2 DICOM files'')))
   \<and> (length (successful (loadMultipleDicomFiles decode files)) = 2
       \<and> volumeViewer a = Some v \<and> isInitialized v \<and> viewport v = Some vp
       \<and> run = Completes vol actors \<longrightarrow>
      (\<exists>a' v'. loadVolumeFromFiles decode run files a = (a', None)
          \<and> volumeViewer a' = Some v'
          \<and> map_option vd_volume (currentVolumeData v') = Some vol
          \<and> map_option imageIds (currentVolumeData v')
              = Some (map li_imageId (successful (loadMultipleDicomFiles decode files)))
          \<and> imageCount v' = Some 2))"
proof (intro conjI impI)
  assume "length (successful (loadMultipleDicomFiles decode files)) < 2"
  then show "loadVolumeFromFiles decode run files a
             = (a, Some (Error ''Need at least 2 DICOM files''))"
    by (simp add: loadVolumeFromFiles_def Let_def)
next
  let ?ok = "successful (loadMultipleDicomFiles decode files)"
  assume h: "length ?ok = 2 \<and> volumeViewer a = Some v \<and> isInitialized v \<and> viewport v = Some vp
       \<and> run = Completes vol actors"
  then obtain s1 s2 where ok: "?ok = [s1, s2]"
    by (metis (no_types, lifting) One_nat_def Suc_1 length_0_conv length_Suc_conv)
  obtain st' where d: "displayVolume (map li_imageId ?ok) (li_metadata s1) (Completes vol actors) v
                         = (st', None)"
      and cv: "currentVolumeData st'
                 = Some \<lparr>vd_volume = vol, imageIds = map li_imageId ?ok,
                          vd_metadata = li_metadata s1\<rparr>"
      and vp': "viewport st' \<noteq> None"
    using displayVolume_completes [of v vp] h by blast
  show "\<exists>a' v'. loadVolumeFromFiles decode run files a = (a', None)
          \<and> volumeViewer a' = Some v'
          \<and> map_option vd_volume (currentVolumeData v') = Some vol
          \<and> map_option imageIds (currentVolumeData v') = Some (map li_imageId ?ok)
          \<and> imageCount v' = Some 2"
    using h ok d cv vp'
    by (simp add: loadVolumeFromFiles_def Let_def imageCount_def viewport_setActiveTool
          currentVolumeData_setActiveTool)
qed

text \<open>The upload handler never lets fewer than two files reach the viewer.\<close>

lemma handleFileUpload_few_files:
  assumes "length files < 2"
  shows "handleFileUpload decode run files a = a"
  using assms by (simp add: handleFileUpload_def)

lemma one_loaded:
  "length (successful (loadMultipleDicomFiles decode_all [slice_file ''s1.dcm''])) = 1"
  by code_simp

lemma two_loaded:
  "map li_imageId
     (successful (loadMultipleDicomFiles decode_all [slice_file ''s1.dcm'', slice_file ''s2.DCM'']))
   = [''dicomfile:s1.dcm'', ''dicomfile:s2.DCM'']"
  by code_simp

theorem loadVolumeFromFiles_minimum_witness:
  "loadVolumeFromFiles decode_all run0 [slice_file ''s1.dcm''] app0
     = (app0, Some (Error ''Need at least 2 DICOM files''))
   \<and> (\<exists>a' v'. loadVolumeFromFiles decode_all run0
                  [slice_file ''s1.dcm'', slice_file ''s2.DCM''] app0 = (a', None)
          \<and> volumeViewer a' = Some v'
          \<and> map_option vd_volume (currentVolumeData v') = Some volume0
          \<and> map_option imageIds (currentVolumeData v')
              = Some [''dicomfile:s1.dcm'', ''dicomfile:s2.DCM'']
          \<and> imageCount v' = Some 2)"
proof -
  have v: "volumeViewer app0 = Some (setupToolGroup viewer_unbound)"
    by (simp add: app0_def)
  have i: "isInitialized (setupToolGroup viewer_unbound)"
    and vp: "viewport (setupToolGroup viewer_unbound) = Some viewport0"
    by (simp_all add: setupToolGroup_def viewer_unbound_def viewer0_def console_log_def Let_def)
  have two: "length (successful (loadMultipleDicomFiles decode_all
                [slice_file ''s1.dcm'', slice_file ''s2.DCM''])) = 2"
    using two_loaded [THEN arg_cong, of length] by simp
  show ?thesis
    using loadVolumeFromFiles_minimum
            [of decode_all "[slice_file ''s1.dcm'']" run0 app0 "setupToolGroup viewer_unbound"
                viewport0 volume0 "[\<lparr>actor = Some actor0\<rparr>]"]
          loadVolumeFromFiles_minimum
            [of decode_all "[slice_file ''s1.dcm'', slice_file ''s2.DCM'']" run0 app0
                "setupToolGroup viewer_unbound" viewport0 volume0 "[\<lparr>actor = Some actor0\<rparr>]"]
          v i vp two
    by (simp add: one_loaded two_loaded run0_def)
qed

end
